theory Spec2Isabelle
  imports Complex_Main "HOL-Library.Word" "HOL-Library.Multiset"
begin

section \<open>Archon: multi-dimensional vector storage and similarity search\<close>

text \<open>
  The development embeds \<^verbatim>\<open>database/migrations/complete_setup.sql\<close>: the tables
  \<^verbatim>\<open>documents\<close> and \<^verbatim>\<open>code_examples\<close> with their four typed embedding columns, the
  \<^verbatim>\<open>ivfflat\<close> index declarations, the PL/pgSQL helpers
  \<^verbatim>\<open>detect_embedding_dimension\<close> and \<^verbatim>\<open>get_embedding_column_name\<close>, and the two search
  functions that build their query text with \<^verbatim>\<open>format\<close> and run it with
  \<^verbatim>\<open>EXECUTE\<close>.

  Conventions. SQL \<^verbatim>\<open>NULL\<close> is \<open>None\<close>. A raised exception is \<open>Inl\<close> of an
  \<open>sql_error\<close>. A table is the list of its rows. \<^verbatim>\<open>INTEGER\<close> is \<open>int\<close>.
  A \<^verbatim>\<open>float\<close> value is a real number or the value \<^verbatim>\<open>NaN\<close>; arithmetic on the
  numbers is exact, and the two infinities are left out.  What a statement may do in more than one way (the order
  of rows with equal sort keys) is a relation between the inputs and an outcome,
  not a function.  A \<^verbatim>\<open>SELECT\<close> has its declarative meaning (every row of the
  table is considered); the recall of an approximate index scan is not modelled.
\<close>

subsection \<open>Column types\<close>

text \<open>
  \<^verbatim>\<open>id UUID PRIMARY KEY\<close>: a 128-bit value; PostgreSQL compares UUIDs as unsigned
  big-endian byte strings, which is the order of \<open>128 word\<close>.
\<close>

type_synonym uuid = "128 word"

text \<open>
  \<^verbatim>\<open>float\<close> (\<^verbatim>\<open>double precision\<close>).  PostgreSQL orders \<^verbatim>\<open>NaN\<close> above every
  number and equal to itself; that is the order \<open>\<le>\<close> below, used by
  \<^verbatim>\<open>>=\<close> and by \<^verbatim>\<open>ORDER BY\<close> alike.
\<close>

datatype float8 = Num real | NaN

instantiation float8 :: linorder
begin

fun less_eq_float8 :: "float8 \<Rightarrow> float8 \<Rightarrow> bool" where
  "less_eq_float8 (Num a) (Num b) = (a \<le> b)"
| "less_eq_float8 NaN (Num b) = False"
| "less_eq_float8 x NaN = True"

definition less_float8 :: "float8 \<Rightarrow> float8 \<Rightarrow> bool" where
  "less_float8 x y = (x \<le> y \<and> \<not> y \<le> x)"

instance
proof
  fix x y z :: float8
  show "(x < y) = (x \<le> y \<and> \<not> y \<le> x)" by (simp add: less_float8_def)
  show "x \<le> x" by (cases x) simp_all
  show "x \<le> y \<Longrightarrow> y \<le> z \<Longrightarrow> x \<le> z" by (cases x; cases y; cases z) simp_all
  show "x \<le> y \<Longrightarrow> y \<le> x \<Longrightarrow> x = y" by (cases x; cases y) simp_all
  show "x \<le> y \<or> y \<le> x" by (cases x; cases y) auto
qed

end

text \<open>\<^verbatim>\<open>1 - x\<close> on \<^verbatim>\<open>float\<close> values: \<^verbatim>\<open>NaN\<close> stays \<^verbatim>\<open>NaN\<close>.\<close>

fun one_minus :: "float8 \<Rightarrow> float8" where
  "one_minus (Num a) = Num (1 - a)"
| "one_minus NaN = NaN"

text \<open>
  The type \<^verbatim>\<open>vector\<close> of the \<^verbatim>\<open>vector\<close> extension, as the functions' parameters
  have it: between 1 and 16000 elements.  No value of the type is empty.
\<close>

typedef vector = "{v :: real list. 1 \<le> length v \<and> length v \<le> 16000}"
  by (rule exI [of _ "[0]"]) simp

text \<open>
  \<^verbatim>\<open>vector(768)\<close>, \<^verbatim>\<open>vector(1024)\<close>, \<^verbatim>\<open>vector(1536)\<close>, \<^verbatim>\<open>vector(3072)\<close>: the type
  modifier fixes the number of elements of every stored value.
\<close>

typedef vector_768 = "{v :: real list. length v = 768}"
  by (rule exI [of _ "replicate 768 0"]) simp

typedef vector_1024 = "{v :: real list. length v = 1024}"
  by (rule exI [of _ "replicate 1024 0"]) simp

typedef vector_1536 = "{v :: real list. length v = 1536}"
  by (rule exI [of _ "replicate 1536 0"]) simp

typedef vector_3072 = "{v :: real list. length v = 3072}"
  by (rule exI [of _ "replicate 3072 0"]) simp

subsection \<open>Tables\<close>

text \<open>
  The columns both tables share: the key and the four nullable embedding slots.
  The key column \<^verbatim>\<open>id\<close> is named \<open>id'\<close> here.
\<close>

record embedding_row =
  id' :: uuid
  embedding_768 :: "vector_768 option"
  embedding_1024 :: "vector_1024 option"
  embedding_1536 :: "vector_1536 option"
  embedding_3072 :: "vector_3072 option"

text \<open>
  Table \<^verbatim>\<open>documents\<close> (lines 48-63).  The columns no search function reads
  (\<^verbatim>\<open>source_id\<close>, \<^verbatim>\<open>content_length\<close>, \<^verbatim>\<open>chunk_index\<close>, \<^verbatim>\<open>metadata\<close>, the
  timestamps) are left out.
\<close>

record document = embedding_row +
  title :: "string option"
  content :: string
  url :: string

text \<open>Table \<^verbatim>\<open>code_examples\<close> (lines 70-88), with the same columns left out.\<close>

record code_example = embedding_row +
  language :: "string option"
  framework :: "string option"
  function_name :: "string option"
  code_snippet :: string
  description :: "string option"

text \<open>The row types of the two \<^verbatim>\<open>RETURNS TABLE\<close> clauses.\<close>

record document_match =
  document_id :: uuid
  doc_title :: "string option"
  doc_content :: string
  doc_url :: string
  similarity_score :: float8

record code_match =
  code_id :: uuid
  code_language :: "string option"
  code_framework :: "string option"
  code_function_name :: "string option"
  code_code_snippet :: string
  code_description :: "string option"
  code_similarity_score :: float8

subsection \<open>Errors\<close>

text \<open>
  \<open>UnsupportedDimension d\<close> is the exception
  \<^verbatim>\<open>'Unsupported embedding dimension: %'\<close> raised by \<^verbatim>\<open>get_embedding_column_name\<close>.
  \<open>UndefinedColumn c\<close> is PostgreSQL's \<^verbatim>\<open>column "c" does not exist\<close>, raised when
  an executed query text names a column the table does not have.
  \<open>NegativeLimit\<close> is PostgreSQL's \<^verbatim>\<open>LIMIT must not be negative\<close>.
  \<open>CannotCoerce s t\<close> is PostgreSQL's \<^verbatim>\<open>cannot cast type s to t\<close> (SQLSTATE 42846).
  \<open>DifferentDimensions m n\<close> is the extension's
  \<^verbatim>\<open>different vector dimensions m and n\<close>, raised by \<^verbatim>\<open><=>\<close>.
\<close>

datatype sql_error =
    UnsupportedDimension "int option"
  | UndefinedColumn string
  | NegativeLimit
  | CannotCoerce string string
  | DifferentDimensions int int

subsection \<open>Rendering integers as text\<close>

definition digit_char :: "nat \<Rightarrow> char" where
  "digit_char d = char_of (48 + d)"

function show_nat :: "nat \<Rightarrow> string" where
  "show_nat n = (if n < 10 then [digit_char n] else show_nat (n div 10) @ [digit_char (n mod 10)])"
  by pat_completeness auto
termination
  by (relation "measure (\<lambda>n. n)") auto

declare show_nat.simps [simp del]

definition show_int :: "int \<Rightarrow> string" where
  "show_int i = (if i < 0 then CHR ''-'' # show_nat (nat (- i)) else show_nat (nat i))"

text \<open>
  One \<^verbatim>\<open>%s\<close> of \<^verbatim>\<open>format\<close> applied to an \<^verbatim>\<open>INTEGER\<close> argument: the decimal text
  of the value, and the empty string for \<^verbatim>\<open>NULL\<close>.
\<close>

definition format_s :: "int option \<Rightarrow> string" where
  "format_s arg = (case arg of None \<Rightarrow> [] | Some i \<Rightarrow> show_int i)"

text \<open>Reading decimal text back; used only to show that \<open>show_nat\<close> is injective.\<close>

definition digit_val :: "char \<Rightarrow> nat" where
  "digit_val c = of_char c - 48"

definition read_nat :: "string \<Rightarrow> nat" where
  "read_nat s = foldl (\<lambda>a c. 10 * a + digit_val c) 0 s"

subsection \<open>Utility functions\<close>

text \<open>
  The casts from \<^verbatim>\<open>vector\<close> to an array type.  The \<^verbatim>\<open>vector\<close> extension declares one,
  to \<^verbatim>\<open>real[]\<close>; it declares none to \<^verbatim>\<open>double precision[]\<close>, which is what
  \<^verbatim>\<open>float[]\<close> names, and PostgreSQL does not chain casts.  Whether a cast exists
  is decided from the types when the expression is analysed, before any value
  is looked at, so the missing cast fails for a \<^verbatim>\<open>NULL\<close> operand too.
\<close>

datatype element_type = Real | Double_precision

fun array_type_name :: "element_type \<Rightarrow> string" where
  "array_type_name Real = ''real[]''"
| "array_type_name Double_precision = ''double precision[]''"

definition cast_vector_to_array :: "element_type \<Rightarrow> vector option \<Rightarrow> sql_error + real list option" where
  "cast_vector_to_array elem v =
     (if elem = Real then Inr (map_option Rep_vector v)
      else Inl (CannotCoerce ''vector'' (array_type_name elem)))"

text \<open>
  \<^verbatim>\<open>array_length(a, 1)\<close>: \<^verbatim>\<open>NULL\<close> for a \<^verbatim>\<open>NULL\<close> array and for an array without
  elements, the number of elements otherwise.
\<close>

definition array_length_1 :: "'a list option \<Rightarrow> int option" where
  "array_length_1 a =
     (case a of None \<Rightarrow> None | Some xs \<Rightarrow> if xs = [] then None else Some (int (length xs)))"

text \<open>
  \<^verbatim>\<open>detect_embedding_dimension\<close> (lines 173-178):
  \<^verbatim>\<open>RETURN array_length(embedding_vector::float[], 1)\<close>.
\<close>

definition detect_embedding_dimension :: "vector option \<Rightarrow> sql_error + int option" where
  "detect_embedding_dimension embedding_vector =
     (case cast_vector_to_array Double_precision embedding_vector of
        Inl e \<Rightarrow> Inl e
      | Inr a \<Rightarrow> Inr (array_length_1 a))"

text \<open>
  \<^verbatim>\<open>get_embedding_column_name\<close> (lines 181-192): a simple \<^verbatim>\<open>CASE\<close> on the
  dimension; a \<^verbatim>\<open>NULL\<close> dimension equals no \<^verbatim>\<open>WHEN\<close> value and reaches \<^verbatim>\<open>ELSE\<close>.
  The function is declared \<^verbatim>\<open>IMMUTABLE\<close> and reads or writes no table, so it
  takes and returns no table state.
\<close>

definition get_embedding_column_name :: "int option \<Rightarrow> sql_error + string" where
  "get_embedding_column_name dimension =
     (if dimension = Some 768 then Inr ''embedding_768''
      else if dimension = Some 1024 then Inr ''embedding_1024''
      else if dimension = Some 1536 then Inr ''embedding_1536''
      else if dimension = Some 3072 then Inr ''embedding_3072''
      else Inl (UnsupportedDimension dimension))"

subsection \<open>Name resolution and the vector operator\<close>

text \<open>
  Resolving a column name that starts with \<^verbatim>\<open>embedding_\<close> against either table:
  the four declared slots, read as plain vectors, and nothing else.
\<close>

definition vector_column :: "string \<Rightarrow> (('a embedding_row_scheme) \<Rightarrow> real list option) option" where
  "vector_column c =
     (if c = ''embedding_768'' then Some (\<lambda>r. map_option Rep_vector_768 (embedding_768 r))
      else if c = ''embedding_1024'' then Some (\<lambda>r. map_option Rep_vector_1024 (embedding_1024 r))
      else if c = ''embedding_1536'' then Some (\<lambda>r. map_option Rep_vector_1536 (embedding_1536 r))
      else if c = ''embedding_3072'' then Some (\<lambda>r. map_option Rep_vector_3072 (embedding_3072 r))
      else None)"

text \<open>The slot of a row that holds vectors of \<open>d\<close> elements, if the table has one.\<close>

definition embedding_slot :: "nat \<Rightarrow> ('a embedding_row_scheme) \<Rightarrow> real list option" where
  "embedding_slot d r =
     (if d = 768 then map_option Rep_vector_768 (embedding_768 r)
      else if d = 1024 then map_option Rep_vector_1024 (embedding_1024 r)
      else if d = 1536 then map_option Rep_vector_1536 (embedding_1536 r)
      else if d = 3072 then map_option Rep_vector_3072 (embedding_3072 r)
      else None)"

text \<open>
  The operator \<^verbatim>\<open><=>\<close> belongs to the \<^verbatim>\<open>vector\<close> extension, not to this
  repository: the queries take it as the parameter \<open>distance\<close>, a function of two
  vectors of equal length that may yield \<^verbatim>\<open>NaN\<close>.  (On vectors of different
  lengths the operator raises; the queries check the lengths before they
  apply \<open>distance\<close>.)  The cosine distance below instantiates it in concrete
  examples; it is \<^verbatim>\<open>NaN\<close> when one of the vectors has norm zero.
\<close>

definition dot :: "real list \<Rightarrow> real list \<Rightarrow> real" where
  "dot a b = (\<Sum>(x, y)\<leftarrow>zip a b. x * y)"

definition cosine_distance :: "real list \<Rightarrow> real list \<Rightarrow> float8" where
  "cosine_distance a b =
     (if dot a a * dot b b = 0 then NaN
      else Num (1 - dot a b / sqrt (dot a a * dot b b)))"

subsection \<open>The dynamically built queries\<close>

text \<open>\<^verbatim>\<open>WHERE embedding_d IS NOT NULL\<close>: the rows with a populated slot, with its value.\<close>

definition populated :: "('r \<Rightarrow> real list option) \<Rightarrow> 'r list \<Rightarrow> ('r \<times> real list) list" where
  "populated embedding rows = List.map_filter (\<lambda>r. map_option (Pair r) (embedding r)) rows"

text \<open>\<^verbatim>\<open>LIMIT $3\<close>: a \<^verbatim>\<open>NULL\<close> limit keeps every row; a negative one is an error.\<close>

definition limit_allowed :: "int option \<Rightarrow> bool" where
  "limit_allowed n = (case n of None \<Rightarrow> True | Some k \<Rightarrow> 0 \<le> k)"

definition limit_rows :: "int option \<Rightarrow> 'a list \<Rightarrow> 'a list" where
  "limit_rows n xs = (case n of None \<Rightarrow> xs | Some k \<Rightarrow> take (nat k) xs)"

text \<open>
  The query of \<^verbatim>\<open>search_similar_documents\<close> (lines 215-231), for a given value of
  \<open>dimension_size\<close>.  \<^verbatim>\<open>format\<close> puts the text of \<open>dimension_size\<close> after
  \<^verbatim>\<open>embedding_\<close> in four places; \<^verbatim>\<open>EXECUTE ... USING\<close> binds \<^verbatim>\<open>$1\<close>, \<^verbatim>\<open>$2\<close>, \<^verbatim>\<open>$3\<close> to
  \<open>query_embedding\<close>, \<open>similarity_threshold\<close>, \<open>max_results\<close> and runs
  \<^verbatim>\<open>SELECT id, title, content, url, 1 - (embedding_d <=> $1) FROM documents
  WHERE embedding_d IS NOT NULL AND (1 - (embedding_d <=> $1)) >= $2
  ORDER BY embedding_d <=> $1 LIMIT $3\<close>.
  The outcomes:
  \<^item> the name \<^verbatim>\<open>embedding_d\<close> is not a column of the table;
  \<^item> \<^verbatim>\<open><=>\<close> meets a stored vector whose length is not the query vector's;
  \<^item> the limit is negative;
  \<^item> \<^verbatim>\<open>$1\<close> or \<^verbatim>\<open>$2\<close> is \<^verbatim>\<open>NULL\<close>, so the comparison is \<^verbatim>\<open>NULL\<close> for every row and
    no row is returned;
  \<^item> rows are returned: the populated rows that pass the threshold, in an order
    of ascending distance, cut at the limit.  \<^verbatim>\<open>ORDER BY\<close> names the distance
    only, and PostgreSQL promises no order among rows of equal sort key: every
    arrangement \<open>ys\<close> of the rows that is sorted by distance is an outcome.
  Where two errors apply, or an error and the empty result of a \<^verbatim>\<open>NULL\<close>
  threshold, the relation admits both.
\<close>

inductive documents_query ::
  "(real list \<Rightarrow> real list \<Rightarrow> float8) \<Rightarrow> document list \<Rightarrow> int option \<Rightarrow> vector option
     \<Rightarrow> float8 option \<Rightarrow> int option \<Rightarrow> sql_error + document_match list \<Rightarrow> bool"
  for distance documents dimension_size query_embedding similarity_threshold max_results
where
  undefined_column:
    "(vector_column (''embedding_'' @ format_s dimension_size)
        :: (document \<Rightarrow> real list option) option) = None \<Longrightarrow>
     documents_query distance documents dimension_size query_embedding similarity_threshold
       max_results (Inl (UndefinedColumn (''embedding_'' @ format_s dimension_size)))"
| different_dimensions:
    "vector_column (''embedding_'' @ format_s dimension_size) =
       Some (embedding :: document \<Rightarrow> real list option) \<Longrightarrow>
     query_embedding = Some qv \<Longrightarrow>
     (r, v) \<in> set (populated embedding documents) \<Longrightarrow>
     length v \<noteq> length (Rep_vector qv) \<Longrightarrow>
     documents_query distance documents dimension_size query_embedding similarity_threshold
       max_results (Inl (DifferentDimensions (int (length v)) (int (length (Rep_vector qv)))))"
| negative_limit:
    "vector_column (''embedding_'' @ format_s dimension_size) =
       Some (embedding :: document \<Rightarrow> real list option) \<Longrightarrow>
     \<not> limit_allowed max_results \<Longrightarrow>
     documents_query distance documents dimension_size query_embedding similarity_threshold
       max_results (Inl NegativeLimit)"
| null_operand:
    "vector_column (''embedding_'' @ format_s dimension_size) =
       Some (embedding :: document \<Rightarrow> real list option) \<Longrightarrow>
     query_embedding = None \<or> similarity_threshold = None \<Longrightarrow>
     limit_allowed max_results \<Longrightarrow>
     documents_query distance documents dimension_size query_embedding similarity_threshold
       max_results (Inr [])"
| rows:
    "vector_column (''embedding_'' @ format_s dimension_size) =
       Some (embedding :: document \<Rightarrow> real list option) \<Longrightarrow>
     query_embedding = Some qv \<Longrightarrow>
     similarity_threshold = Some tv \<Longrightarrow>
     \<forall>(r, v) \<in> set (populated embedding documents). length v = length (Rep_vector qv) \<Longrightarrow>
     limit_allowed max_results \<Longrightarrow>
     mset ys = mset (filter (\<lambda>(r, v). one_minus (distance v (Rep_vector qv)) \<ge> tv)
                      (populated embedding documents)) \<Longrightarrow>
     sorted (map (\<lambda>(r, v). distance v (Rep_vector qv)) ys) \<Longrightarrow>
     documents_query distance documents dimension_size query_embedding similarity_threshold
       max_results
       (Inr (limit_rows max_results
          (map (\<lambda>(r, v). \<lparr>document_id = id' r, doc_title = title r,
                          doc_content = content r, doc_url = url r,
                          similarity_score = one_minus (distance v (Rep_vector qv))\<rparr>) ys)))"


subsection \<open>Search\<close>

text \<open>
  \<^verbatim>\<open>search_similar_documents\<close> (lines 195-233): the assignment
  \<^verbatim>\<open>dimension_size := detect_embedding_dimension(query_embedding)\<close> comes first; an
  exception it raises ends the call.  Otherwise the call returns what the query
  built for \<open>dimension_size\<close> returns.
\<close>

inductive search_similar_documents ::
  "(real list \<Rightarrow> real list \<Rightarrow> float8) \<Rightarrow> document list \<Rightarrow> vector option
     \<Rightarrow> float8 option \<Rightarrow> int option \<Rightarrow> sql_error + document_match list \<Rightarrow> bool"
  for distance documents query_embedding similarity_threshold max_results
where
  detect_raises:
    "detect_embedding_dimension query_embedding = Inl e \<Longrightarrow>
     search_similar_documents distance documents query_embedding similarity_threshold
       max_results (Inl e)"
| query_runs:
    "detect_embedding_dimension query_embedding = Inr dimension_size \<Longrightarrow>
     documents_query distance documents dimension_size query_embedding similarity_threshold
       max_results outcome \<Longrightarrow>
     search_similar_documents distance documents query_embedding similarity_threshold
       max_results outcome"





text \<open>
  How two scores compare for ranking: \<open>a\<close> is at least \<open>b\<close>, where a score that is
  not a number counts as the lowest (its row has the greatest distance).
\<close>

fun at_least :: "float8 \<Rightarrow> float8 \<Rightarrow> bool" where
  "at_least (Num a) (Num b) = (b \<le> a)"
| "at_least NaN (Num b) = False"
| "at_least x NaN = True"


subsection \<open>Index declarations\<close>

text \<open>
  The \<^verbatim>\<open>CREATE INDEX\<close> statements on the two tables (lines 66-67, 91-92 and
  136-163).  No statement names the column \<^verbatim>\<open>embedding_3072\<close>; the comments at
  lines 148 and 165 give the reason: the index width limit of 2000 elements.
\<close>

datatype index_method = Btree | Ivfflat

record index_decl =
  index_name :: string
  index_table :: string
  index_method :: index_method
  index_column :: string
  index_lists :: "nat option"

definition table_indexes :: "index_decl list" where
  "table_indexes =
     [\<lparr>index_name = ''idx_documents_source_id'', index_table = ''documents'',
       index_method = Btree, index_column = ''source_id'', index_lists = None\<rparr>,
      \<lparr>index_name = ''idx_documents_url'', index_table = ''documents'',
       index_method = Btree, index_column = ''url'', index_lists = None\<rparr>,
      \<lparr>index_name = ''idx_code_examples_source_id'', index_table = ''code_examples'',
       index_method = Btree, index_column = ''source_id'', index_lists = None\<rparr>,
      \<lparr>index_name = ''idx_code_examples_language'', index_table = ''code_examples'',
       index_method = Btree, index_column = ''language'', index_lists = None\<rparr>,
      \<lparr>index_name = ''idx_documents_embedding_768'', index_table = ''documents'',
       index_method = Ivfflat, index_column = ''embedding_768'', index_lists = Some 100\<rparr>,
      \<lparr>index_name = ''idx_documents_embedding_1024'', index_table = ''documents'',
       index_method = Ivfflat, index_column = ''embedding_1024'', index_lists = Some 100\<rparr>,
      \<lparr>index_name = ''idx_documents_embedding_1536'', index_table = ''documents'',
       index_method = Ivfflat, index_column = ''embedding_1536'', index_lists = Some 100\<rparr>,
      \<lparr>index_name = ''idx_code_examples_embedding_768'', index_table = ''code_examples'',
       index_method = Ivfflat, index_column = ''embedding_768'', index_lists = Some 100\<rparr>,
      \<lparr>index_name = ''idx_code_examples_embedding_1024'', index_table = ''code_examples'',
       index_method = Ivfflat, index_column = ''embedding_1024'', index_lists = Some 100\<rparr>,
      \<lparr>index_name = ''idx_code_examples_embedding_1536'', index_table = ''code_examples'',
       index_method = Ivfflat, index_column = ''embedding_1536'', index_lists = Some 100\<rparr>]"

definition max_index_dimension :: nat where
  "max_index_dimension = 2000"

text \<open>
  The dimensions with a storage slot, as the setting
  \<^verbatim>\<open>SUPPORTED_EMBEDDING_DIMENSIONS\<close> lists them (line 293).
\<close>

definition supported_dimensions :: "nat list" where
  "supported_dimensions = [768, 1024, 1536, 3072]"

text \<open>
  How the bucket of dimension \<open>d\<close> of a table is searched: through the inverted-list
  index declared on its column, with that index's number of lists, or by a scan
  of the whole bucket when no such index is declared.  The answer is read from
  the declarations alone; the rows of the table play no part in it.
\<close>

datatype index_strategy = Approximate nat | Exact

definition index_strategy :: "string \<Rightarrow> nat \<Rightarrow> index_strategy" where
  "index_strategy tbl d =
     (case find (\<lambda>i. index_table i = tbl \<and> index_method i = Ivfflat
                     \<and> index_column i = ''embedding_'' @ show_nat d) table_indexes of
        None \<Rightarrow> Exact
      | Some i \<Rightarrow> (case index_lists i of None \<Rightarrow> Exact | Some k \<Rightarrow> Approximate k))"

subsection \<open>Example rows\<close>

text \<open>
  Rows whose only populated slot holds a constant vector; their cosine distance
  to another constant non-zero vector is 0 (same sign) or 2 (opposite sign).
\<close>

definition doc_768 :: "uuid \<Rightarrow> real \<Rightarrow> document" where
  "doc_768 i x =
     \<lparr>id' = i, embedding_768 = Some (Abs_vector_768 (replicate 768 x)),
      embedding_1024 = None, embedding_1536 = None, embedding_3072 = None,
      title = None, content = ''chunk'', url = ''https://example.org''\<rparr>"

definition doc_1024 :: "uuid \<Rightarrow> real \<Rightarrow> document" where
  "doc_1024 i x =
     \<lparr>id' = i, embedding_768 = None,
      embedding_1024 = Some (Abs_vector_1024 (replicate 1024 x)),
      embedding_1536 = None, embedding_3072 = None,
      title = None, content = ''chunk'', url = ''https://example.org''\<rparr>"

definition code_768 :: "uuid \<Rightarrow> real \<Rightarrow> code_example" where
  "code_768 i x =
     \<lparr>id' = i, embedding_768 = Some (Abs_vector_768 (replicate 768 x)),
      embedding_1024 = None, embedding_1536 = None, embedding_3072 = None,
      language = None, framework = None, function_name = None,
      code_snippet = ''snippet'', description = None\<rparr>"

definition doc_hit :: "uuid \<Rightarrow> real \<Rightarrow> document_match" where
  "doc_hit i s =
     \<lparr>document_id = i, doc_title = None, doc_content = ''chunk'',
      doc_url = ''https://example.org'', similarity_score = Num s\<rparr>"

definition code_hit :: "uuid \<Rightarrow> real \<Rightarrow> code_match" where
  "code_hit i s =
     \<lparr>code_id = i, code_language = None, code_framework = None,
      code_function_name = None, code_code_snippet = ''snippet'',
      code_description = None, code_similarity_score = Num s\<rparr>"

text \<open>Query vectors: \<open>n\<close> elements, all 1.\<close>

definition ones :: "nat \<Rightarrow> vector" where
  "ones n = Abs_vector (replicate n 1)"

section \<open>Auxiliary facts\<close>

subsection \<open>Decimal text is injective\<close>

lemma digit_val_digit_char: "d < 10 \<Longrightarrow> digit_val (digit_char d) = d"
  by (simp add: digit_val_def digit_char_def)

lemma read_nat_snoc: "read_nat (s @ [c]) = 10 * read_nat s + digit_val c"
  by (simp add: read_nat_def)

lemma read_nat_show_nat: "read_nat (show_nat n) = n"
proof (induction n rule: show_nat.induct)
  case (1 n)
  show ?case
  proof (cases "n < 10")
    case True
    then show ?thesis
      by (subst show_nat.simps) (simp add: read_nat_def digit_val_digit_char)
  next
    case False
    with 1 have "read_nat (show_nat (n div 10)) = n div 10" by simp
    with False show ?thesis
      by (subst show_nat.simps) (simp add: read_nat_snoc digit_val_digit_char)
  qed
qed

lemma show_nat_inj: "show_nat m = show_nat n \<Longrightarrow> m = n"
  by (metis read_nat_show_nat)

lemma show_nat_768: "show_nat 768 = ''768''"
  by (simp add: show_nat.simps digit_char_def char_of_def bit_0)

lemma show_nat_1024: "show_nat 1024 = ''1024''"
  by (simp add: show_nat.simps digit_char_def char_of_def bit_0)

lemma show_nat_1536: "show_nat 1536 = ''1536''"
  by (simp add: show_nat.simps digit_char_def char_of_def bit_0)

lemma show_nat_3072: "show_nat 3072 = ''3072''"
  by (simp add: show_nat.simps digit_char_def char_of_def bit_0)

lemma show_nat_eq_768: "show_nat n = ''768'' \<longleftrightarrow> n = 768"
  using show_nat_inj [of n 768] by (auto simp: show_nat_768)

lemma show_nat_eq_1024: "show_nat n = ''1024'' \<longleftrightarrow> n = 1024"
  using show_nat_inj [of n 1024] by (auto simp: show_nat_1024)

lemma show_nat_eq_1536: "show_nat n = ''1536'' \<longleftrightarrow> n = 1536"
  using show_nat_inj [of n 1536] by (auto simp: show_nat_1536)

lemma show_nat_eq_3072: "show_nat n = ''3072'' \<longleftrightarrow> n = 3072"
  using show_nat_inj [of n 3072] by (auto simp: show_nat_3072)

lemmas show_nat_eq = show_nat_eq_768 show_nat_eq_1024 show_nat_eq_1536 show_nat_eq_3072

subsection \<open>The column a query names\<close>

lemma vector_column_embedding:
  "vector_column (''embedding_'' @ show_nat d) =
     (if d = 768 \<or> d = 1024 \<or> d = 1536 \<or> d = 3072 then Some (embedding_slot d) else None)"
  by (auto simp: vector_column_def show_nat_eq embedding_slot_def fun_eq_iff)

lemma vector_column_format_s:
  "vector_column (''embedding_'' @ format_s d) =
     (case d of
        None \<Rightarrow> None
      | Some i \<Rightarrow> if i = 768 \<or> i = 1024 \<or> i = 1536 \<or> i = 3072
                  then Some (embedding_slot (nat i)) else None)"
proof (cases d)
  case None
  then show ?thesis by (simp add: format_s_def vector_column_def)
next
  case (Some i)
  show ?thesis
  proof (cases "i < 0")
    case True
    with Some show ?thesis by (simp add: format_s_def show_int_def vector_column_def)
  next
    case False
    then have "format_s d = show_nat (nat i)" using Some by (simp add: format_s_def show_int_def)
    moreover from False have "(nat i = 768 \<or> nat i = 1024 \<or> nat i = 1536 \<or> nat i = 3072) =
        (i = 768 \<or> i = 1024 \<or> i = 1536 \<or> i = 3072)" by auto
    ultimately show ?thesis using Some by (simp only: vector_column_embedding option.case)
  qed
qed

lemma vector_column_unsupported:
  assumes "d \<notin> Some ` int ` set supported_dimensions"
  shows "vector_column (''embedding_'' @ format_s d) = None"
proof (cases d)
  case None
  then show ?thesis unfolding vector_column_format_s by simp
next
  case (Some i)
  with assms have "\<not> (i = 768 \<or> i = 1024 \<or> i = 1536 \<or> i = 3072)"
    by (auto simp: supported_dimensions_def image_iff)
  with Some show ?thesis unfolding vector_column_format_s by simp
qed

lemma embedding_slot_length: "embedding_slot d r = Some v \<Longrightarrow> length v = d"
  using Rep_vector_768 Rep_vector_1024 Rep_vector_1536 Rep_vector_3072
  by (auto simp: embedding_slot_def split: if_splits)

subsection \<open>The failing cast\<close>

lemma detect_embedding_dimension_raises:
  "detect_embedding_dimension q = Inl (CannotCoerce ''vector'' ''double precision[]'')"
  by (simp add: detect_embedding_dimension_def cast_vector_to_array_def)

lemma search_similar_documents_iff:
  "search_similar_documents distance documents q t n outcome \<longleftrightarrow>
     outcome = Inl (CannotCoerce ''vector'' ''double precision[]'')"
  by (simp add: search_similar_documents.simps detect_embedding_dimension_raises)


subsection \<open>Scores\<close>

lemma at_least_one_minus: "a \<le> b \<Longrightarrow> at_least (one_minus a) (one_minus b)"
  by (cases a; cases b) simp_all

subsection \<open>Outcomes of the document query\<close>

lemma documents_query_rows:
  assumes "documents_query distance documents d q t n (Inr rs)"
  shows "(rs = [] \<and> limit_allowed n) \<or>
    (\<exists>embedding qv tv ys.
       vector_column (''embedding_'' @ format_s d) = Some embedding \<and>
       q = Some qv \<and> t = Some tv \<and> limit_allowed n \<and>
       (\<forall>(r, v) \<in> set (populated embedding documents). length v = length (Rep_vector qv)) \<and>
       mset ys = mset (filter (\<lambda>(r, v). one_minus (distance v (Rep_vector qv)) \<ge> tv)
                        (populated embedding documents)) \<and>
       sorted (map (\<lambda>(r, v). distance v (Rep_vector qv)) ys) \<and>
       rs = limit_rows n
          (map (\<lambda>(r, v). \<lparr>document_id = id' r, doc_title = title r,
                          doc_content = content r, doc_url = url r,
                          similarity_score = one_minus (distance v (Rep_vector qv))\<rparr>) ys))"
  using assms by (cases rule: documents_query.cases) blast+

lemma documents_query_rowsI:
  assumes "vector_column (''embedding_'' @ format_s d) = Some embedding"
    and "\<forall>(r, v) \<in> set (populated embedding documents). length v = length (Rep_vector qv)"
    and "limit_allowed n"
    and "mset ys = mset (filter (\<lambda>(r, v). one_minus (distance v (Rep_vector qv)) \<ge> tv)
                        (populated embedding documents))"
    and "sorted (map (\<lambda>(r, v). distance v (Rep_vector qv)) ys)"
    and "rs = limit_rows n
          (map (\<lambda>(r, v). \<lparr>document_id = id' r, doc_title = title r,
                          doc_content = content r, doc_url = url r,
                          similarity_score = one_minus (distance v (Rep_vector qv))\<rparr>) ys)"
  shows "documents_query distance documents d (Some qv) (Some tv) n (Inr rs)"
  unfolding assms(6) using assms(1) refl refl assms(2-5) by (rule documents_query.rows)

lemma documents_query_unsupported:
  assumes "d \<notin> Some ` int ` set supported_dimensions"
  shows "documents_query distance documents d q t n outcome \<longleftrightarrow>
           outcome = Inl (UndefinedColumn (''embedding_'' @ format_s d))"
proof -
  have none: "(vector_column (''embedding_'' @ format_s d)
                 :: (document \<Rightarrow> real list option) option) = None"
    by (rule vector_column_unsupported [OF assms])
  show ?thesis
  proof
    assume "documents_query distance documents d q t n outcome"
    then show "outcome = Inl (UndefinedColumn (''embedding_'' @ format_s d))"
      using none by (cases rule: documents_query.cases) simp_all
  next
    assume "outcome = Inl (UndefinedColumn (''embedding_'' @ format_s d))"
    then show "documents_query distance documents d q t n outcome"
      using documents_query.undefined_column [OF none] by simp
  qed
qed


subsection \<open>Cosine distance of constant vectors\<close>

lemma dot_replicate: "dot (replicate n x) (replicate n y) = real n * (x * y)"
  by (induction n) (simp_all add: dot_def algebra_simps)

lemma cosine_distance_replicate:
  assumes "0 < n" and "x \<noteq> 0" and "y \<noteq> 0"
  shows "cosine_distance (replicate n x) (replicate n y) = Num (1 - (x * y) / (\<bar>x\<bar> * \<bar>y\<bar>))"
proof -
  have "dot (replicate n x) (replicate n x) * dot (replicate n y) (replicate n y)
        = (real n * (x * y)) * (real n * (x * y))"
    by (simp add: dot_replicate algebra_simps)
  moreover from this have "sqrt (dot (replicate n x) (replicate n x) * dot (replicate n y) (replicate n y))
        = real n * (\<bar>x\<bar> * \<bar>y\<bar>)"
    by (simp add: abs_mult)
  moreover from assms have "(real n * (x * y)) * (real n * (x * y)) \<noteq> 0" by simp
  ultimately show ?thesis
    using assms by (simp add: cosine_distance_def dot_replicate)
qed

subsection \<open>The example rows and query vectors\<close>

lemma embedding_slot_doc_768 [simp]:
  "embedding_slot 768 (doc_768 i x) = Some (replicate 768 x)"
  by (simp add: embedding_slot_def doc_768_def Abs_vector_768_inverse)

lemma embedding_slot_doc_1024 [simp]:
  "embedding_slot 768 (doc_1024 i x) = None"
  "embedding_slot 1024 (doc_1024 i x) = Some (replicate 1024 x)"
  by (simp_all add: embedding_slot_def doc_1024_def Abs_vector_1024_inverse)

lemma embedding_slot_code_768 [simp]:
  "embedding_slot 768 (code_768 i x) = Some (replicate 768 x)"
  by (simp add: embedding_slot_def code_768_def Abs_vector_768_inverse)

lemma doc_768_fields [simp]:
  "id' (doc_768 i x) = i" "title (doc_768 i x) = None"
  "content (doc_768 i x) = ''chunk''" "url (doc_768 i x) = ''https://example.org''"
  by (simp_all add: doc_768_def)

lemma doc_1024_fields [simp]:
  "id' (doc_1024 i x) = i" "title (doc_1024 i x) = None"
  "content (doc_1024 i x) = ''chunk''" "url (doc_1024 i x) = ''https://example.org''"
  by (simp_all add: doc_1024_def)

lemma code_768_fields [simp]:
  "id' (code_768 i x) = i" "language (code_768 i x) = None"
  "framework (code_768 i x) = None" "function_name (code_768 i x) = None"
  "code_snippet (code_768 i x) = ''snippet''" "description (code_768 i x) = None"
  by (simp_all add: code_768_def)

lemma Rep_vector_ones: "1 \<le> n \<Longrightarrow> n \<le> 16000 \<Longrightarrow> Rep_vector (ones n) = replicate n 1"
  by (simp add: ones_def Abs_vector_inverse)

lemma cosine_distance_768 [simp]:
  "x \<noteq> 0 \<Longrightarrow> y \<noteq> 0 \<Longrightarrow>
   cosine_distance (replicate 768 x) (replicate 768 y) = Num (1 - (x * y) / (\<bar>x\<bar> * \<bar>y\<bar>))"
  by (rule cosine_distance_replicate) simp_all

lemma column_768:
  "vector_column (''embedding_'' @ format_s (Some 768)) = Some (embedding_slot 768)"
  unfolding vector_column_format_s by simp

subsection \<open>Further decimal texts\<close>

lemma show_nat_512: "show_nat 512 = ''512''"
  by (simp add: show_nat.simps digit_char_def char_of_def bit_0)

subsection \<open>Both queries in terms of ids and slot values\<close>











section \<open>The claims\<close>

subsection \<open>C1: ranking\<close>

text \<open>
  Claim C1, as amended.  Whenever the query that \<open>search_similar_documents\<close> builds
  returns rows, they are in an order of ascending cosine distance: the
  similarity of each row is at least that of every row after it, rows whose
  similarity is not a number coming last.  The distance is the only sort key of
  the query, so two rows of equal similarity may come in either order of their
  ids.
\<close>

theorem documents_query_ranked_by_similarity:
  assumes "documents_query distance documents dimension_size q t n (Inr rs)"
  shows "sorted_wrt (\<lambda>a b. at_least (similarity_score a) (similarity_score b)) rs"
proof -
  from documents_query_rows [OF assms]
  consider "rs = []"
    | qv ys where
       "sorted (map (\<lambda>(r :: document, v). distance v (Rep_vector qv)) ys)"
       "rs = limit_rows n
          (map (\<lambda>(r, v). \<lparr>document_id = id' r, doc_title = title r,
                          doc_content = content r, doc_url = url r,
                          similarity_score = one_minus (distance v (Rep_vector qv))\<rparr>) ys)"
    by blast
  then show ?thesis
  proof cases
    case 1
    then show ?thesis by simp
  next
    case 2
    let ?key = "\<lambda>(r :: document, v). distance v (Rep_vector qv)"
    let ?proj = "\<lambda>(r :: document, v). \<lparr>document_id = id' r, doc_title = title r,
                          doc_content = content r, doc_url = url r,
                          similarity_score = one_minus (distance v (Rep_vector qv))\<rparr>"
    from 2(1) have "sorted_wrt (\<lambda>a b. ?key a \<le> ?key b) ys" by (simp only: sorted_map)
    then have "sorted_wrt (\<lambda>a b. at_least (similarity_score (?proj a)) (similarity_score (?proj b))) ys"
      by (rule sorted_wrt_mono_rel [rotated]) (auto intro: at_least_one_minus)
    then have m: "sorted_wrt (\<lambda>a b. at_least (similarity_score a) (similarity_score b)) (map ?proj ys)"
      by (simp only: sorted_wrt_map)
    show ?thesis
    proof (cases n)
      case None
      with m 2(2) show ?thesis by (simp add: limit_rows_def)
    next
      case (Some k)
      from m have "sorted_wrt (\<lambda>a b. at_least (similarity_score a) (similarity_score b))
          (take (nat k) (map ?proj ys))"
        by (rule sorted_wrt_take)
      with Some 2(2) show ?thesis by (simp add: limit_rows_def)
    qed
  qed
qed

text \<open>
  The theorem at a table of two rows with similarities \<open>-1\<close> and \<open>1\<close> to the query:
  the row of similarity \<open>1\<close> comes first.
\<close>

theorem documents_query_ranked_by_similarity_witness:
  "documents_query cosine_distance [doc_768 1 (- 1), doc_768 2 1] (Some 768)
     (Some (ones 768)) (Some (Num (- 1))) (Some 10) (Inr [doc_hit 2 1, doc_hit 1 (- 1)])
   \<and> sorted_wrt (\<lambda>a b. at_least (similarity_score a) (similarity_score b))
       [doc_hit 2 1, doc_hit 1 (- 1)]"
proof -
  have h: "documents_query cosine_distance [doc_768 1 (- 1), doc_768 2 1] (Some 768)
     (Some (ones 768)) (Some (Num (- 1))) (Some 10) (Inr [doc_hit 2 1, doc_hit 1 (- 1)])"
    by (rule documents_query_rowsI [OF column_768,
          where ys = "[(doc_768 2 1, replicate 768 1), (doc_768 1 (- 1), replicate 768 (- 1))]"])
       (simp_all add: populated_def Rep_vector_ones limit_allowed_def limit_rows_def doc_hit_def)
  from documents_query_ranked_by_similarity [OF h] h show ?thesis by (rule conjI [rotated])
qed

text \<open>
  The claim as stated fails at a table of two rows of equal similarity to the
  query: the search raises, and the query it is written to run admits the
  result that lists id 2 before id 1.
\<close>

theorem search_tie_order_counterexample:
  "search_similar_documents cosine_distance [doc_768 1 1, doc_768 2 1]
     (Some (ones 768)) (Some (Num (7 / 10))) (Some 10)
     (Inl (CannotCoerce ''vector'' ''double precision[]''))
   \<and> documents_query cosine_distance [doc_768 1 1, doc_768 2 1] (Some 768)
       (Some (ones 768)) (Some (Num (7 / 10))) (Some 10) (Inr [doc_hit 2 1, doc_hit 1 1])
   \<and> similarity_score (doc_hit 2 1) = similarity_score (doc_hit 1 1)
   \<and> document_id (doc_hit 1 1) < document_id (doc_hit 2 1)"
proof -
  have "documents_query cosine_distance [doc_768 1 1, doc_768 2 1] (Some 768)
       (Some (ones 768)) (Some (Num (7 / 10))) (Some 10) (Inr [doc_hit 2 1, doc_hit 1 1])"
    by (rule documents_query_rowsI [OF column_768,
          where ys = "[(doc_768 2 1, replicate 768 1), (doc_768 1 1, replicate 768 1)]"])
       (simp_all add: populated_def Rep_vector_ones limit_allowed_def limit_rows_def doc_hit_def)
  then show ?thesis
    by (simp add: search_similar_documents_iff doc_hit_def)
qed

subsection \<open>C2: a query of unsupported length\<close>

text \<open>
  Claim C2, as amended.  For every query vector whose length is not one of 768,
  1024, 1536, 3072, \<open>search_similar_documents\<close> fails and returns no rows, and the
  error is not the unsupported-dimension exception of
  \<open>get_embedding_column_name\<close>, which the search never calls: the query built for
  such a dimension fails on its column name, \<^verbatim>\<open>embedding_\<close> followed by the text
  of the dimension.
\<close>

theorem search_unsupported_dimension_fails:
  assumes "length (Rep_vector q) \<notin> {768, 1024, 1536, 3072}"
  shows "(\<exists>e. search_similar_documents distance documents (Some q) t n (Inl e))
       \<and> (\<forall>outcome. search_similar_documents distance documents (Some q) t n outcome \<longrightarrow>
             (\<exists>e. outcome = Inl e \<and> (\<forall>d. e \<noteq> UnsupportedDimension d)))
       \<and> (\<forall>outcome.
             documents_query distance documents (Some (int (length (Rep_vector q)))) (Some q) t n
               outcome \<longleftrightarrow>
             outcome = Inl (UndefinedColumn (''embedding_'' @ show_nat (length (Rep_vector q)))))"
proof (intro conjI allI)
  show "\<exists>e. search_similar_documents distance documents (Some q) t n (Inl e)"
    by (simp add: search_similar_documents_iff)
  show "search_similar_documents distance documents (Some q) t n outcome \<longrightarrow>
             (\<exists>e. outcome = Inl e \<and> (\<forall>d. e \<noteq> UnsupportedDimension d))" for outcome
    by (simp add: search_similar_documents_iff)
  from assms have "Some (int (length (Rep_vector q))) \<notin> Some ` int ` set supported_dimensions"
    by (auto simp: supported_dimensions_def)
  from documents_query_unsupported [OF this]
  show "documents_query distance documents (Some (int (length (Rep_vector q)))) (Some q) t n
               outcome \<longleftrightarrow>
             outcome = Inl (UndefinedColumn (''embedding_'' @ show_nat (length (Rep_vector q))))"
    for outcome
    by (simp add: format_s_def show_int_def)
qed

text \<open>The theorem at a query vector of 512 elements.\<close>

theorem search_unsupported_dimension_fails_witness:
  "length (Rep_vector (ones 512)) \<notin> {768, 1024, 1536, 3072}
   \<and> (\<exists>e. search_similar_documents cosine_distance [doc_768 2 1] (Some (ones 512))
            (Some (Num (7 / 10))) (Some 10) (Inl e))
   \<and> documents_query cosine_distance [doc_768 2 1] (Some 512) (Some (ones 512))
       (Some (Num (7 / 10))) (Some 10) (Inl (UndefinedColumn ''embedding_512''))"
proof -
  have l: "length (Rep_vector (ones 512)) = 512" by (simp add: Rep_vector_ones)
  then have h: "length (Rep_vector (ones 512)) \<notin> {768, 1024, 1536, 3072}" by simp
  note c = search_unsupported_dimension_fails
    [OF h, of cosine_distance "[doc_768 2 1]" "Some (Num (7 / 10))" "Some 10"]
  from c have a: "\<exists>e. search_similar_documents cosine_distance [doc_768 2 1] (Some (ones 512))
            (Some (Num (7 / 10))) (Some 10) (Inl e)" by blast
  from c have "documents_query cosine_distance [doc_768 2 1]
       (Some (int (length (Rep_vector (ones 512))))) (Some (ones 512))
       (Some (Num (7 / 10))) (Some 10)
       (Inl (UndefinedColumn (''embedding_'' @ show_nat (length (Rep_vector (ones 512))))))"
    by blast
  then have b: "documents_query cosine_distance [doc_768 2 1] (Some 512) (Some (ones 512))
       (Some (Num (7 / 10))) (Some 10) (Inl (UndefinedColumn ''embedding_512''))"
    by (simp add: l show_nat_512)
  from h a b show ?thesis by (intro conjI)
qed

text \<open>
  The claim as stated fails: a query of 512 elements does not raise the
  exception of \<open>get_embedding_column_name\<close>.
\<close>

theorem search_unsupported_dimension_counterexample:
  "search_similar_documents cosine_distance [] (Some (ones 512)) (Some (Num (7 / 10))) (Some 10)
     (Inl (CannotCoerce ''vector'' ''double precision[]''))
   \<and> \<not> search_similar_documents cosine_distance [] (Some (ones 512)) (Some (Num (7 / 10)))
         (Some 10) (Inl (UnsupportedDimension (Some 512)))"
  by (simp add: search_similar_documents_iff)

subsection \<open>C3: the threshold\<close>

text \<open>
  Claim C3, at an input where the code departs from it.  The table holds a row
  of similarity \<open>-1\<close> and a row of similarity \<open>1\<close> to the query, and the threshold
  is 0.7: by the claim the search returns the second row and leaves out the
  first.  The call raises the cast error of \<open>detect_embedding_dimension\<close> and
  returns no row.
\<close>

theorem search_threshold_scenario_raises:
  "search_similar_documents cosine_distance [doc_768 1 (- 1), doc_768 2 1] (Some (ones 768))
     (Some (Num (7 / 10))) (Some 10) (Inl (CannotCoerce ''vector'' ''double precision[]''))
   \<and> \<not> search_similar_documents cosine_distance [doc_768 1 (- 1), doc_768 2 1]
         (Some (ones 768)) (Some (Num (7 / 10))) (Some 10) (Inr [doc_hit 2 1])"
  by (simp add: search_similar_documents_iff)

subsection \<open>C4: one bucket per query\<close>

text \<open>
  Claim C4, at an input where the code departs from it.  The table holds one row
  in the 1024 bucket and one in the 768 bucket, and the query has 768 elements:
  by the claim the search scans and scores the row of the 768 bucket, and
  returns it.  The call raises the cast error of \<open>detect_embedding_dimension\<close>
  before any row is read.
\<close>

theorem search_bucket_scenario_raises:
  "search_similar_documents cosine_distance [doc_1024 1 1, doc_768 2 1] (Some (ones 768))
     (Some (Num (7 / 10))) (Some 10) (Inl (CannotCoerce ''vector'' ''double precision[]''))
   \<and> \<not> search_similar_documents cosine_distance [doc_1024 1 1, doc_768 2 1]
         (Some (ones 768)) (Some (Num (7 / 10))) (Some 10) (Inr [doc_hit 2 1])"
  by (simp add: search_similar_documents_iff)

subsection \<open>C5: the limit and the defaults\<close>



subsection \<open>C6: resolving a dimension to its column\<close>

text \<open>
  Claim C6.  \<open>get_embedding_column_name\<close> succeeds exactly when the dimension is one
  of 768, 1024, 1536, 3072; it then returns the name of that dimension's slot,
  which resolves to the slot holding vectors of that many elements.  For every
  other dimension (\<^verbatim>\<open>NULL\<close> included) it raises the unsupported-dimension
  exception.  The function is a pure function of its argument: it has no table
  to change, before or after the check.
\<close>

theorem get_embedding_column_name_resolves:
  "((\<exists>c. get_embedding_column_name dimension = Inr c) \<longleftrightarrow>
       dimension \<in> Some ` int ` set supported_dimensions)
   \<and> (\<forall>d \<in> set supported_dimensions.
         get_embedding_column_name (Some (int d)) = Inr (''embedding_'' @ show_nat d) \<and>
         vector_column (''embedding_'' @ show_nat d) =
           Some (embedding_slot d :: document \<Rightarrow> real list option))
   \<and> (dimension \<notin> Some ` int ` set supported_dimensions \<longrightarrow>
         get_embedding_column_name dimension = Inl (UnsupportedDimension dimension))"
proof (intro conjI)
  show "(\<exists>c. get_embedding_column_name dimension = Inr c) \<longleftrightarrow>
       dimension \<in> Some ` int ` set supported_dimensions"
    by (auto simp: get_embedding_column_name_def supported_dimensions_def)
  show "\<forall>d \<in> set supported_dimensions.
         get_embedding_column_name (Some (int d)) = Inr (''embedding_'' @ show_nat d) \<and>
         vector_column (''embedding_'' @ show_nat d) =
           Some (embedding_slot d :: document \<Rightarrow> real list option)"
    by (simp add: supported_dimensions_def get_embedding_column_name_def
        show_nat_768 show_nat_1024 show_nat_1536 show_nat_3072
        vector_column_def embedding_slot_def fun_eq_iff)
  show "dimension \<notin> Some ` int ` set supported_dimensions \<longrightarrow>
         get_embedding_column_name dimension = Inl (UnsupportedDimension dimension)"
    by (auto simp: get_embedding_column_name_def supported_dimensions_def)
qed

text \<open>The theorem at the supported dimension 1536 and at the unsupported dimension 512.\<close>

theorem get_embedding_column_name_resolves_witness:
  "1536 \<in> set supported_dimensions
   \<and> get_embedding_column_name (Some 1536) = Inr ''embedding_1536''
   \<and> Some 512 \<notin> Some ` int ` set supported_dimensions
   \<and> get_embedding_column_name (Some 512) = Inl (UnsupportedDimension (Some 512))"
proof -
  have a: "1536 \<in> set supported_dimensions" by (simp add: supported_dimensions_def)
  have b: "Some 512 \<notin> Some ` int ` set supported_dimensions"
    by (simp add: supported_dimensions_def)
  from get_embedding_column_name_resolves [of "Some 1536"] a
  have "get_embedding_column_name (Some (int 1536)) = Inr (''embedding_'' @ show_nat 1536)"
    by blast
  then have c: "get_embedding_column_name (Some 1536) = Inr ''embedding_1536''"
    by (simp add: show_nat_1536)
  from get_embedding_column_name_resolves [of "Some 512"] b
  have d: "get_embedding_column_name (Some 512) = Inl (UnsupportedDimension (Some 512))"
    by blast
  from a b c d show ?thesis by simp
qed

subsection \<open>C7: which buckets are indexed\<close>

text \<open>
  Claim C7.  On both tables, the bucket of a supported dimension is searched
  through an inverted-list index built with 100 lists exactly when the dimension
  is at most the index width limit, and by a scan of the whole bucket exactly
  when it is not.  The limit admits 768, 1024 and 1536; the bucket of dimension
  3072 has no index and is always scanned.  The strategy is a function of the
  table name and the dimension only, not of the rows stored.
\<close>

theorem index_strategy_by_dimension:
  "(\<forall>tbl \<in> {''documents'', ''code_examples''}. \<forall>d \<in> set supported_dimensions.
      (index_strategy tbl d = Approximate 100 \<longleftrightarrow> d \<le> max_index_dimension) \<and>
      (index_strategy tbl d = Exact \<longleftrightarrow> \<not> d \<le> max_index_dimension))
   \<and> 768 \<le> max_index_dimension \<and> 1024 \<le> max_index_dimension
   \<and> 1536 \<le> max_index_dimension \<and> \<not> 3072 \<le> max_index_dimension
   \<and> index_strategy ''documents'' 3072 = Exact
   \<and> index_strategy ''code_examples'' 3072 = Exact"
  by (simp add: supported_dimensions_def index_strategy_def table_indexes_def
      max_index_dimension_def show_nat_768 show_nat_1024 show_nat_1536 show_nat_3072)

text \<open>The theorem at the 768 bucket of \<^verbatim>\<open>documents\<close> and the 3072 bucket of \<^verbatim>\<open>code_examples\<close>.\<close>

theorem index_strategy_by_dimension_witness:
  "''documents'' \<in> {''documents'', ''code_examples''} \<and> 768 \<in> set supported_dimensions
   \<and> 768 \<le> max_index_dimension \<and> index_strategy ''documents'' 768 = Approximate 100
   \<and> ''code_examples'' \<in> {''documents'', ''code_examples''} \<and> 3072 \<in> set supported_dimensions
   \<and> \<not> 3072 \<le> max_index_dimension \<and> index_strategy ''code_examples'' 3072 = Exact"
proof -
  have a: "''documents'' \<in> {''documents'', ''code_examples''}" by simp
  have b: "''code_examples'' \<in> {''documents'', ''code_examples''}" by simp
  have c: "768 \<in> set supported_dimensions" "3072 \<in> set supported_dimensions"
    by (simp_all add: supported_dimensions_def)
  note t = index_strategy_by_dimension
  from t have l: "768 \<le> max_index_dimension" "\<not> 3072 \<le> max_index_dimension"
    by blast+
  from t a c(1) l(1) have d: "index_strategy ''documents'' 768 = Approximate 100"
    by blast
  from t have e: "index_strategy ''code_examples'' 3072 = Exact" by blast
  from a b c l d e show ?thesis by simp
qed

subsection \<open>C8: stored vectors have their slot's length\<close>

text \<open>
  Claim C8.  In every row of either table, a populated embedding slot holds a
  vector whose length is the dimension of the slot, and the slot is one of the
  four declared ones.  The column types allow no other row.
\<close>

theorem populated_slot_has_declared_length:
  "(embedding_slot d (r :: document) = Some v \<longrightarrow>
      length v = d \<and> d \<in> set supported_dimensions)
   \<and> (embedding_slot d (c :: code_example) = Some w \<longrightarrow>
      length w = d \<and> d \<in> set supported_dimensions)
   \<and> (\<forall>x. embedding_768 r = Some x \<longrightarrow> length (Rep_vector_768 x) = 768)
   \<and> (\<forall>x. embedding_1024 r = Some x \<longrightarrow> length (Rep_vector_1024 x) = 1024)
   \<and> (\<forall>x. embedding_1536 r = Some x \<longrightarrow> length (Rep_vector_1536 x) = 1536)
   \<and> (\<forall>x. embedding_3072 r = Some x \<longrightarrow> length (Rep_vector_3072 x) = 3072)
   \<and> (\<forall>x. embedding_768 c = Some x \<longrightarrow> length (Rep_vector_768 x) = 768)
   \<and> (\<forall>x. embedding_1024 c = Some x \<longrightarrow> length (Rep_vector_1024 x) = 1024)
   \<and> (\<forall>x. embedding_1536 c = Some x \<longrightarrow> length (Rep_vector_1536 x) = 1536)
   \<and> (\<forall>x. embedding_3072 c = Some x \<longrightarrow> length (Rep_vector_3072 x) = 3072)"
proof -
  have supp: "embedding_slot d' r' = Some v' \<Longrightarrow> d' \<in> set supported_dimensions"
    for d' v' and r' :: "'a embedding_row_scheme"
    by (auto simp: embedding_slot_def supported_dimensions_def split: if_splits)
  show ?thesis
    using Rep_vector_768 Rep_vector_1024 Rep_vector_1536 Rep_vector_3072
    by (auto dest: embedding_slot_length supp)
qed

text \<open>The theorem at a document row and a code example row of the 768 bucket.\<close>

theorem populated_slot_has_declared_length_witness:
  "embedding_slot 768 (doc_768 1 1 :: document) = Some (replicate 768 1)
   \<and> embedding_slot 768 (code_768 1 1 :: code_example) = Some (replicate 768 1)
   \<and> length (replicate 768 (1 :: real)) = 768 \<and> 768 \<in> set supported_dimensions"
proof -
  have a: "embedding_slot 768 (doc_768 1 1 :: document) = Some (replicate 768 1)" by simp
  have b: "embedding_slot 768 (code_768 1 1 :: code_example) = Some (replicate 768 1)" by simp
  from populated_slot_has_declared_length
    [of 768 "doc_768 1 1" "replicate 768 1" "code_768 1 1" "replicate 768 1"] a b
  have "length (replicate 768 (1 :: real)) = 768 \<and> 768 \<in> set supported_dimensions"
    by blast
  with a b show ?thesis by simp
qed

subsection \<open>C9: the dimension that reaches the query text\<close>




subsection \<open>C10: the two searches agree\<close>



end
